theory Spec2Isabelle
  imports Main "HOL-Library.Word"
begin

section \<open>Data model\<close>

text \<open>
  The package \<open>scc\<close> ranks security context constraints (SCCs) by how restrictive they
  are. The file \<open>pkg/security/scc/byrestrictions.go\<close> is present in two revisions: the
  current one (typed over \<open>securityapi.SecurityContextConstraints\<close>, the one the tests
  exercise) and an earlier one (typed over \<open>kapi.SecurityContextConstraints\<close>) with a
  smaller weight scale. The current revision is embedded under the source's names, the
  earlier one under the same names with the suffix \<open>_rev1\<close>.

  \<open>FSType\<close>, \<open>SELinuxContextStrategyType\<close> and \<open>RunAsUserStrategyType\<close> are string
  types with named constants. The code only compares their values with those constants
  in \<open>switch\<close> statements, whose case constants are pairwise distinct (Go rejects a
  duplicate case constant). Each type is therefore a datatype with one constructor per
  constant that the code names and one constructor for every other value; the argument
  of that last constructor is the text of the value.
\<close>

datatype FSType =
    FSTypeHostPath
  | FSTypeAll
  | FSTypeSecret
  | FSTypeConfigMap
  | FSTypeEmptyDir
  | FSTypeDownwardAPI
  | FSProjected
  | FSTypeNone
  | FSTypeOther string

datatype SELinuxContextStrategyType =
    SELinuxStrategyRunAsAny
  | SELinuxStrategyMustRunAs
  | SELinuxStrategyOther string

datatype RunAsUserStrategyType =
    RunAsUserStrategyRunAsAny
  | RunAsUserStrategyMustRunAsNonRoot
  | RunAsUserStrategyMustRunAsRange
  | RunAsUserStrategyMustRunAs
  | RunAsUserStrategyOther string

type_synonym Capability = string

text \<open>
  Modelled from the spec: the constant \<open>kapi.CapabilityAll\<close> is declared outside the
  files at hand. The spec names the two wildcard tokens \<open>"ALL"\<close> and \<open>"*"\<close>; the code
  writes \<open>"ALL"\<close> as a literal next to the constant, and the test case
  \<open>"allow star"\<close> expects the token \<open>"*"\<close> to score as the wildcard, so the constant
  is \<open>"*"\<close>.
\<close>

definition CapabilityAll :: Capability where
  "CapabilityAll = ''*''"

text \<open>
  The fields of the constraint that the scorer reads. The two strategy fields are
  structs of their own, of which only the field \<open>Type\<close> is read.
\<close>

record SELinuxContextStrategyOptions =
  SELinuxType :: SELinuxContextStrategyType

record RunAsUserStrategyOptions =
  RunAsUserType :: RunAsUserStrategyType

record SecurityContextConstraints =
  AllowPrivilegedContainer :: bool
  DefaultAddCapabilities :: "Capability list"
  RequiredDropCapabilities :: "Capability list"
  AllowedCapabilities :: "Capability list"
  Volumes :: "FSType list"
  SELinuxContext :: SELinuxContextStrategyOptions
  RunAsUser :: RunAsUserStrategyOptions

text \<open>
  Go's \<open>int\<close> is modelled by \<open>int\<close>. The program is built for 64-bit platforms,
  where \<open>int\<close> has 64 bits; the section on 64-bit integers below gives the scorer on
  words and shows that it computes the same scores as long as every capability list has
  fewer than \<open>2 ^ 48\<close> entries. A slice of \<open>n\<close> capabilities occupies \<open>16 * n\<close>
  bytes, so this holds wherever fewer than \<open>2 ^ 52\<close> bytes can be addressed.
\<close>

section \<open>The scorer, current revision\<close>

subsection \<open>Volumes\<close>

text \<open>
  The body of the \<open>switch\<close> inside the loop of \<open>volumePointValue\<close>, as a step on the two
  flags \<open>(hasHostVolume, hasNonTrivialVolume)\<close>. The \<open>break\<close> of the first case leaves
  the \<open>switch\<close>, not the loop.
\<close>

fun volumeSwitch :: "FSType \<Rightarrow> bool \<times> bool \<Rightarrow> bool \<times> bool" where
  "volumeSwitch FSTypeHostPath (hasHostVolume, hasNonTrivialVolume) = (True, hasNonTrivialVolume)"
| "volumeSwitch FSTypeAll (hasHostVolume, hasNonTrivialVolume) = (True, hasNonTrivialVolume)"
| "volumeSwitch FSTypeSecret (hasHostVolume, hasNonTrivialVolume) = (hasHostVolume, hasNonTrivialVolume)"
| "volumeSwitch FSTypeConfigMap (hasHostVolume, hasNonTrivialVolume) = (hasHostVolume, hasNonTrivialVolume)"
| "volumeSwitch FSTypeEmptyDir (hasHostVolume, hasNonTrivialVolume) = (hasHostVolume, hasNonTrivialVolume)"
| "volumeSwitch FSTypeDownwardAPI (hasHostVolume, hasNonTrivialVolume) = (hasHostVolume, hasNonTrivialVolume)"
| "volumeSwitch FSProjected (hasHostVolume, hasNonTrivialVolume) = (hasHostVolume, hasNonTrivialVolume)"
| "volumeSwitch FSTypeNone (hasHostVolume, hasNonTrivialVolume) = (hasHostVolume, hasNonTrivialVolume)"
| "volumeSwitch (FSTypeOther s) (hasHostVolume, hasNonTrivialVolume) = (hasHostVolume, True)"

text \<open>The loop \<open>for _, v := range scc.Volumes\<close>.\<close>

fun volumeLoop :: "FSType list \<Rightarrow> bool \<times> bool \<Rightarrow> bool \<times> bool" where
  "volumeLoop [] flags = flags"
| "volumeLoop (v # vs) flags = volumeLoop vs (volumeSwitch v flags)"

definition volumePointValue :: "SecurityContextConstraints \<Rightarrow> int" where
  "volumePointValue scc =
     (case volumeLoop (Volumes scc) (False, False) of
        (hasHostVolume, hasNonTrivialVolume) \<Rightarrow>
          if hasHostVolume then 100000
          else if hasNonTrivialVolume then 50000
          else 0)"

subsection \<open>Capabilities\<close>

text \<open>\<open>hasCap\<close> checks for needle in haystack, returning at the first match.\<close>

fun hasCap :: "Capability \<Rightarrow> Capability list \<Rightarrow> bool" where
  "hasCap needle [] = False"
| "hasCap needle (c # haystack) = (if needle = c then True else hasCap needle haystack)"

definition capabilitiesPointValue :: "SecurityContextConstraints \<Rightarrow> int" where
  "capabilitiesPointValue scc =
     (let points = 5000;
          points = points + 300 * int (length (DefaultAddCapabilities scc));
          points =
            (if hasCap CapabilityAll (AllowedCapabilities scc) then points + 4000
             else if hasCap ''ALL'' (AllowedCapabilities scc) then points + 4000
             else points + 10 * int (length (AllowedCapabilities scc)));
          points =
            (if hasCap ''ALL'' (RequiredDropCapabilities scc) then points - 3000
             else points - 50 * int (length (RequiredDropCapabilities scc)))
      in if points > 10000 then 10000
         else if points < 0 then 0
         else points)"

subsection \<open>Strategies and the total\<close>

text \<open>
  The two \<open>switch\<close> statements of \<open>pointValue\<close>, each as the number of points it adds.
  Neither has a \<open>default\<close> case: any other value adds nothing.
\<close>

fun seLinuxStrategyPoints :: "SELinuxContextStrategyType \<Rightarrow> int" where
  "seLinuxStrategyPoints SELinuxStrategyRunAsAny = 40000"
| "seLinuxStrategyPoints SELinuxStrategyMustRunAs = 10000"
| "seLinuxStrategyPoints (SELinuxStrategyOther s) = 0"

fun runAsUserStrategyPoints :: "RunAsUserStrategyType \<Rightarrow> int" where
  "runAsUserStrategyPoints RunAsUserStrategyRunAsAny = 40000"
| "runAsUserStrategyPoints RunAsUserStrategyMustRunAsNonRoot = 30000"
| "runAsUserStrategyPoints RunAsUserStrategyMustRunAsRange = 20000"
| "runAsUserStrategyPoints RunAsUserStrategyMustRunAs = 10000"
| "runAsUserStrategyPoints (RunAsUserStrategyOther s) = 0"

definition pointValue :: "SecurityContextConstraints \<Rightarrow> int" where
  "pointValue constraint =
     (let points = 0;
          points = (if AllowPrivilegedContainer constraint then points + 200000 else points);
          points = points + volumePointValue constraint;
          points = points + capabilitiesPointValue constraint;
          points = points + seLinuxStrategyPoints (SELinuxType (SELinuxContext constraint));
          points = points + runAsUserStrategyPoints (RunAsUserType (RunAsUser constraint))
      in points)"

section \<open>The scorer on 64-bit integers\<close>

text \<open>
  The current revision once more, with \<open>int\<close> as a 64-bit word: additions,
  subtractions and products wrap around, comparisons read the word as a signed number.
\<close>

type_synonym int64 = "64 word"

definition capabilitiesPointValue_int64 :: "SecurityContextConstraints \<Rightarrow> int64" where
  "capabilitiesPointValue_int64 scc =
     (let points = 5000;
          points = points + 300 * of_nat (length (DefaultAddCapabilities scc));
          points =
            (if hasCap CapabilityAll (AllowedCapabilities scc) then points + 4000
             else if hasCap ''ALL'' (AllowedCapabilities scc) then points + 4000
             else points + 10 * of_nat (length (AllowedCapabilities scc)));
          points =
            (if hasCap ''ALL'' (RequiredDropCapabilities scc) then points - 3000
             else points - 50 * of_nat (length (RequiredDropCapabilities scc)))
      in if word_sless 10000 points then 10000
         else if word_sless points 0 then 0
         else points)"

definition volumePointValue_int64 :: "SecurityContextConstraints \<Rightarrow> int64" where
  "volumePointValue_int64 scc =
     (case volumeLoop (Volumes scc) (False, False) of
        (hasHostVolume, hasNonTrivialVolume) \<Rightarrow>
          if hasHostVolume then 100000
          else if hasNonTrivialVolume then 50000
          else 0)"

definition pointValue_int64 :: "SecurityContextConstraints \<Rightarrow> int64" where
  "pointValue_int64 constraint =
     (let points = 0;
          points = (if AllowPrivilegedContainer constraint then points + 200000 else points);
          points = points + volumePointValue_int64 constraint;
          points = points + capabilitiesPointValue_int64 constraint;
          points = points + of_int (seLinuxStrategyPoints (SELinuxType (SELinuxContext constraint)));
          points = points + of_int (runAsUserStrategyPoints (RunAsUserType (RunAsUser constraint)))
      in points)"

text \<open>The capability lists are short enough for the products not to wrap around.\<close>

definition shortLists :: "SecurityContextConstraints \<Rightarrow> bool" where
  "shortLists scc \<longleftrightarrow>
     length (DefaultAddCapabilities scc) < 2 ^ 48
     \<and> length (AllowedCapabilities scc) < 2 ^ 48
     \<and> length (RequiredDropCapabilities scc) < 2 ^ 48"

section \<open>The scorer, earlier revision\<close>

text \<open>
  The earlier revision has the same \<open>pointValue\<close>, a volume score of 10000 and 5000,
  and a capability score on a base of 500 that looks for \<open>kapi.CapabilityAll\<close> only and
  has no drop-all term.
\<close>

definition volumePointValue_rev1 :: "SecurityContextConstraints \<Rightarrow> int" where
  "volumePointValue_rev1 scc =
     (case volumeLoop (Volumes scc) (False, False) of
        (hasHostVolume, hasNonTrivialVolume) \<Rightarrow>
          if hasHostVolume then 10000
          else if hasNonTrivialVolume then 5000
          else 0)"

definition capabilitiesPointValue_rev1 :: "SecurityContextConstraints \<Rightarrow> int" where
  "capabilitiesPointValue_rev1 scc =
     (let points = 500;
          points = points + 30 * int (length (DefaultAddCapabilities scc));
          points =
            (if hasCap CapabilityAll (AllowedCapabilities scc) then points + 300
             else points + 10 * int (length (AllowedCapabilities scc)));
          points = points - 50 * int (length (RequiredDropCapabilities scc))
      in if points > 1000 then 1000
         else if points < 0 then 0
         else points)"

definition pointValue_rev1 :: "SecurityContextConstraints \<Rightarrow> int" where
  "pointValue_rev1 constraint =
     (let points = 0;
          points = (if AllowPrivilegedContainer constraint then points + 200000 else points);
          points = points + volumePointValue_rev1 constraint;
          points = points + capabilitiesPointValue_rev1 constraint;
          points = points + seLinuxStrategyPoints (SELinuxType (SELinuxContext constraint));
          points = points + runAsUserStrategyPoints (RunAsUserType (RunAsUser constraint))
      in points)"

section \<open>The sort interface\<close>

text \<open>
  \<open>ByRestrictions\<close> is a slice of pointers to constraints. A pointer is \<open>None\<close> when it
  is nil; reading a field through it then panics, as does indexing the slice out of
  range. Both runtime panics are values of the model.
\<close>

datatype panic = IndexOutOfRange | NilPointerDereference

type_synonym ByRestrictions = "SecurityContextConstraints option list"

definition Len :: "ByRestrictions \<Rightarrow> int" where
  "Len s = int (length s)"

definition index :: "ByRestrictions \<Rightarrow> int \<Rightarrow> panic + SecurityContextConstraints option" where
  "index s i = (if 0 \<le> i \<and> i < int (length s) then Inr (s ! nat i) else Inl IndexOutOfRange)"

definition Swap :: "ByRestrictions \<Rightarrow> int \<Rightarrow> int \<Rightarrow> panic + ByRestrictions" where
  "Swap s i j =
     (case index s j of
        Inl e \<Rightarrow> Inl e
      | Inr sj \<Rightarrow>
          (case index s i of
             Inl e \<Rightarrow> Inl e
           | Inr si \<Rightarrow> Inr ((s[nat i := sj])[nat j := si])))"

text \<open>\<open>pointValue\<close> on the pointer it is given: its first field read panics on nil.\<close>

definition pointValue_ptr :: "SecurityContextConstraints option \<Rightarrow> panic + int" where
  "pointValue_ptr p =
     (case p of
        None \<Rightarrow> Inl NilPointerDereference
      | Some constraint \<Rightarrow> Inr (pointValue constraint))"

definition Less :: "ByRestrictions \<Rightarrow> int \<Rightarrow> int \<Rightarrow> panic + bool" where
  "Less s i j =
     (case index s i of
        Inl e \<Rightarrow> Inl e
      | Inr si \<Rightarrow>
          (case pointValue_ptr si of
             Inl e \<Rightarrow> Inl e
           | Inr pi \<Rightarrow>
               (case index s j of
                  Inl e \<Rightarrow> Inl e
                | Inr sj \<Rightarrow>
                    (case pointValue_ptr sj of
                       Inl e \<Rightarrow> Inl e
                     | Inr pj \<Rightarrow> Inr (pi < pj)))))"

section \<open>Descriptions to compare the code with\<close>

text \<open>
  The volume rule in the words of the design: the high value when the set holds
  \<open>HostPath\<close> or the wildcard, else the mid value when it holds a kind outside the
  trivial set, else 0.
\<close>

definition trivialVolumes :: "FSType set" where
  "trivialVolumes =
     {FSTypeSecret, FSTypeConfigMap, FSTypeEmptyDir, FSTypeDownwardAPI, FSProjected, FSTypeNone}"

definition volumeScore_spec :: "FSType list \<Rightarrow> int" where
  "volumeScore_spec vols =
     (if FSTypeHostPath \<in> set vols \<or> FSTypeAll \<in> set vols then 100000
      else if \<exists>v \<in> set vols. v \<notin> trivialVolumes then 50000
      else 0)"

text \<open>
  The running total of the capability score before it is clamped, in the words of the
  design: the base, plus the weight of every default-added capability, plus the allow
  term, minus the drop term.
\<close>

definition capabilityRunningTotal_spec :: "SecurityContextConstraints \<Rightarrow> int" where
  "capabilityRunningTotal_spec scc =
     5000
     + 300 * int (length (DefaultAddCapabilities scc))
     + (if ''ALL'' \<in> set (AllowedCapabilities scc) \<or> ''*'' \<in> set (AllowedCapabilities scc)
        then 4000 else 10 * int (length (AllowedCapabilities scc)))
     - (if ''ALL'' \<in> set (RequiredDropCapabilities scc)
        then 3000 else 50 * int (length (RequiredDropCapabilities scc)))"

section \<open>Example constraints\<close>

text \<open>
  \<open>zeroSCC\<close> is the zero value \<open>&SecurityContextConstraints{}\<close>: nothing allowed, nil
  slices, and the empty string, which is no recognised strategy, in both strategy
  fields.
\<close>

definition zeroSCC :: SecurityContextConstraints where
  "zeroSCC =
     \<lparr>AllowPrivilegedContainer = False,
      DefaultAddCapabilities = [],
      RequiredDropCapabilities = [],
      AllowedCapabilities = [],
      Volumes = [],
      SELinuxContext = \<lparr>SELinuxType = SELinuxStrategyOther ''''\<rparr>,
      RunAsUser = \<lparr>RunAsUserType = RunAsUserStrategyOther ''''\<rparr>\<rparr>"

definition privilegedMinimal :: SecurityContextConstraints where
  "privilegedMinimal =
     zeroSCC\<lparr>AllowPrivilegedContainer := True,
             RequiredDropCapabilities := replicate 100 ''KILL''\<rparr>"

definition unprivilegedMaximal :: SecurityContextConstraints where
  "unprivilegedMaximal =
     zeroSCC\<lparr>DefaultAddCapabilities := replicate 17 ''KILL'',
             Volumes := [FSTypeHostPath],
             SELinuxContext := \<lparr>SELinuxType = SELinuxStrategyRunAsAny\<rparr>,
             RunAsUser := \<lparr>RunAsUserType = RunAsUserStrategyRunAsAny\<rparr>\<rparr>"

definition mustRunAsDropping :: SecurityContextConstraints where
  "mustRunAsDropping =
     zeroSCC\<lparr>RequiredDropCapabilities := replicate 100 ''KILL'',
             SELinuxContext := \<lparr>SELinuxType = SELinuxStrategyMustRunAs\<rparr>\<rparr>"

definition runAsAnyDropping :: SecurityContextConstraints where
  "runAsAnyDropping =
     zeroSCC\<lparr>RequiredDropCapabilities := replicate 100 ''KILL'',
             SELinuxContext := \<lparr>SELinuxType = SELinuxStrategyRunAsAny\<rparr>\<rparr>"

definition unrecognizedAdding :: SecurityContextConstraints where
  "unrecognizedAdding = zeroSCC\<lparr>DefaultAddCapabilities := replicate 17 ''KILL''\<rparr>"

definition manyAllowed :: SecurityContextConstraints where
  "manyAllowed = zeroSCC\<lparr>AllowedCapabilities := replicate 401 ''KILL''\<rparr>"

definition manyDropped :: SecurityContextConstraints where
  "manyDropped = zeroSCC\<lparr>RequiredDropCapabilities := replicate 61 ''KILL''\<rparr>"

text \<open>A slice to sort: its first two constraints score the same.\<close>

definition exampleSlice :: ByRestrictions where
  "exampleSlice = [Some mustRunAsDropping, Some unrecognizedAdding, Some privilegedMinimal]"

section \<open>Basic facts\<close>

lemma hasCap_set: "hasCap needle haystack \<longleftrightarrow> needle \<in> set haystack"
  by (induction haystack) auto

lemma volumeLoop_flags:
  "volumeLoop vs (h, n) =
     (h \<or> FSTypeHostPath \<in> set vs \<or> FSTypeAll \<in> set vs, n \<or> (\<exists>s. FSTypeOther s \<in> set vs))"
proof (induction vs arbitrary: h n)
  case Nil
  show ?case by simp
next
  case (Cons v vs)
  show ?case by (cases v) (auto simp: Cons.IH)
qed

lemma volumePointValue_range: "volumePointValue scc \<in> {0, 50000, 100000}"
  by (simp add: volumePointValue_def split: prod.split)

lemma volumePointValue_bounds: "0 \<le> volumePointValue scc" "volumePointValue scc \<le> 100000"
  using volumePointValue_range [of scc] by auto

lemma capabilitiesPointValue_bounds:
  "0 \<le> capabilitiesPointValue scc" "capabilitiesPointValue scc \<le> 10000"
  by (simp_all add: capabilitiesPointValue_def Let_def)

lemma seLinuxStrategyPoints_bounds:
  "0 \<le> seLinuxStrategyPoints t" "seLinuxStrategyPoints t \<le> 40000"
  by (cases t; simp)+

lemma runAsUserStrategyPoints_bounds:
  "0 \<le> runAsUserStrategyPoints t" "runAsUserStrategyPoints t \<le> 40000"
  by (cases t; simp)+

lemma pointValue_sum:
  "pointValue c =
     (if AllowPrivilegedContainer c then 200000 else 0) + volumePointValue c
       + capabilitiesPointValue c + seLinuxStrategyPoints (SELinuxType (SELinuxContext c))
       + runAsUserStrategyPoints (RunAsUserType (RunAsUser c))"
  by (simp add: pointValue_def Let_def)

lemma pointValue_privileged_ge: "AllowPrivilegedContainer c \<Longrightarrow> 200000 \<le> pointValue c"
  using volumePointValue_bounds(1) [of c] capabilitiesPointValue_bounds(1) [of c]
    seLinuxStrategyPoints_bounds(1) [of "SELinuxType (SELinuxContext c)"]
    runAsUserStrategyPoints_bounds(1) [of "RunAsUserType (RunAsUser c)"]
  by (simp add: pointValue_sum)

lemma pointValue_unprivileged_le: "\<not> AllowPrivilegedContainer c \<Longrightarrow> pointValue c \<le> 190000"
  using volumePointValue_bounds(2) [of c] capabilitiesPointValue_bounds(2) [of c]
    seLinuxStrategyPoints_bounds(2) [of "SELinuxType (SELinuxContext c)"]
    runAsUserStrategyPoints_bounds(2) [of "RunAsUserType (RunAsUser c)"]
  by (simp add: pointValue_sum)

lemma volumePointValue_rev1_bounds:
  "0 \<le> volumePointValue_rev1 scc" "volumePointValue_rev1 scc \<le> 10000"
  by (simp_all add: volumePointValue_rev1_def split: prod.split)

lemma capabilitiesPointValue_rev1_bounds:
  "0 \<le> capabilitiesPointValue_rev1 scc" "capabilitiesPointValue_rev1 scc \<le> 1000"
  by (simp_all add: capabilitiesPointValue_rev1_def Let_def)

lemma pointValue_rev1_sum:
  "pointValue_rev1 c =
     (if AllowPrivilegedContainer c then 200000 else 0) + volumePointValue_rev1 c
       + capabilitiesPointValue_rev1 c + seLinuxStrategyPoints (SELinuxType (SELinuxContext c))
       + runAsUserStrategyPoints (RunAsUserType (RunAsUser c))"
  by (simp add: pointValue_rev1_def Let_def)

lemma pointValue_rev1_privileged_ge:
  "AllowPrivilegedContainer c \<Longrightarrow> 200000 \<le> pointValue_rev1 c"
  using volumePointValue_rev1_bounds(1) [of c] capabilitiesPointValue_rev1_bounds(1) [of c]
    seLinuxStrategyPoints_bounds(1) [of "SELinuxType (SELinuxContext c)"]
    runAsUserStrategyPoints_bounds(1) [of "RunAsUserType (RunAsUser c)"]
  by (simp add: pointValue_rev1_sum)

lemma pointValue_rev1_unprivileged_le:
  "\<not> AllowPrivilegedContainer c \<Longrightarrow> pointValue_rev1 c \<le> 91000"
  using volumePointValue_rev1_bounds(2) [of c] capabilitiesPointValue_rev1_bounds(2) [of c]
    seLinuxStrategyPoints_bounds(2) [of "SELinuxType (SELinuxContext c)"]
    runAsUserStrategyPoints_bounds(2) [of "RunAsUserType (RunAsUser c)"]
  by (simp add: pointValue_rev1_sum)

lemmas eval_simps =
  pointValue_sum volumePointValue_def capabilitiesPointValue_def hasCap_set CapabilityAll_def

subsection \<open>The capability score as a clamped running total\<close>

lemma allowTerm_cases:
  "(if hasCap CapabilityAll xs then p + 4000
    else if hasCap ''ALL'' xs then p + 4000
    else p + 10 * int (length xs))
   = p + (if ''ALL'' \<in> set xs \<or> ''*'' \<in> set xs then 4000 else 10 * int (length xs))"
  by (simp add: hasCap_set CapabilityAll_def)

lemma dropTerm_cases:
  "(if hasCap ''ALL'' xs then p - 3000 else p - 50 * int (length xs))
   = p - (if ''ALL'' \<in> set xs then 3000 else 50 * int (length xs))"
  by (simp add: hasCap_set)

lemma capabilitiesPointValue_total:
  "capabilitiesPointValue scc =
     (if capabilityRunningTotal_spec scc > 10000 then 10000
      else if capabilityRunningTotal_spec scc < 0 then 0
      else capabilityRunningTotal_spec scc)"
  unfolding capabilitiesPointValue_def Let_def allowTerm_cases dropTerm_cases
    capabilityRunningTotal_spec_def
  by (rule refl)


lemma capabilitiesPointValue_clamp:
  "capabilitiesPointValue scc = max 0 (min 10000 (capabilityRunningTotal_spec scc))"
  unfolding capabilitiesPointValue_total by simp

lemma clamp_mono: "(x::int) \<le> y \<Longrightarrow> max 0 (min 10000 x) \<le> max 0 (min 10000 y)"
  by simp

lemma volumePointValue_cong: "Volumes a = Volumes b \<Longrightarrow> volumePointValue a = volumePointValue b"
  by (simp add: volumePointValue_def)

lemma runningTotal_add:
  "capabilityRunningTotal_spec (scc\<lparr>DefaultAddCapabilities := DefaultAddCapabilities scc @ [c]\<rparr>)
     = capabilityRunningTotal_spec scc + 300"
  by (simp add: capabilityRunningTotal_spec_def)

lemma runningTotal_allow:
  assumes "(c \<noteq> ''ALL'' \<and> c \<noteq> ''*'') \<or> ''ALL'' \<in> set (AllowedCapabilities scc)
        \<or> ''*'' \<in> set (AllowedCapabilities scc) \<or> length (AllowedCapabilities scc) \<le> 400"
  shows "capabilityRunningTotal_spec scc
     \<le> capabilityRunningTotal_spec (scc\<lparr>AllowedCapabilities := AllowedCapabilities scc @ [c]\<rparr>)"
  using assms by (auto simp: capabilityRunningTotal_spec_def)

lemma runningTotal_drop:
  assumes "c \<noteq> ''ALL'' \<or> ''ALL'' \<in> set (RequiredDropCapabilities scc)
        \<or> length (RequiredDropCapabilities scc) \<le> 60"
  shows "capabilityRunningTotal_spec (scc\<lparr>RequiredDropCapabilities := RequiredDropCapabilities scc @ [c]\<rparr>)
     \<le> capabilityRunningTotal_spec scc"
  using assms by (auto simp: capabilityRunningTotal_spec_def)

subsection \<open>The scores of the example constraints\<close>

lemmas cap_eval = capabilitiesPointValue_total capabilityRunningTotal_spec_def

lemma cap_mustRunAsDropping: "capabilitiesPointValue mustRunAsDropping = 0"
  by (simp add: mustRunAsDropping_def zeroSCC_def cap_eval)

lemma cap_runAsAnyDropping: "capabilitiesPointValue runAsAnyDropping = 0"
  by (simp add: runAsAnyDropping_def zeroSCC_def cap_eval)

lemma cap_unrecognizedAdding: "capabilitiesPointValue unrecognizedAdding = 10000"
  by (simp add: unrecognizedAdding_def zeroSCC_def cap_eval)

lemma pv_mustRunAsDropping: "pointValue mustRunAsDropping = 10000"
  unfolding pointValue_sum cap_mustRunAsDropping
  by (simp add: mustRunAsDropping_def zeroSCC_def volumePointValue_def)

lemma pv_runAsAnyDropping: "pointValue runAsAnyDropping = 40000"
  unfolding pointValue_sum cap_runAsAnyDropping
  by (simp add: runAsAnyDropping_def zeroSCC_def volumePointValue_def)

lemma pv_unrecognizedAdding: "pointValue unrecognizedAdding = 10000"
  unfolding pointValue_sum cap_unrecognizedAdding
  by (simp add: unrecognizedAdding_def zeroSCC_def volumePointValue_def)

subsection \<open>The volume score against its description\<close>

lemma FSTypeOther_exhaust:
  "v \<noteq> FSTypeHostPath \<Longrightarrow> v \<noteq> FSTypeAll \<Longrightarrow> v \<notin> trivialVolumes \<Longrightarrow> \<exists>s. v = FSTypeOther s"
  by (cases v) (simp_all add: trivialVolumes_def)

lemma FSTypeOther_trivial: "(\<exists>s. FSTypeOther s \<in> set vs) \<longleftrightarrow>
   (\<exists>v \<in> set vs. v \<noteq> FSTypeHostPath \<and> v \<noteq> FSTypeAll \<and> v \<notin> trivialVolumes)"
proof
  assume "\<exists>s. FSTypeOther s \<in> set vs"
  then obtain s where "FSTypeOther s \<in> set vs" ..
  then show "\<exists>v \<in> set vs. v \<noteq> FSTypeHostPath \<and> v \<noteq> FSTypeAll \<and> v \<notin> trivialVolumes"
    by (intro bexI [of _ "FSTypeOther s"]) (simp_all add: trivialVolumes_def)
next
  assume "\<exists>v \<in> set vs. v \<noteq> FSTypeHostPath \<and> v \<noteq> FSTypeAll \<and> v \<notin> trivialVolumes"
  then obtain v where v: "v \<in> set vs" "v \<noteq> FSTypeHostPath" "v \<noteq> FSTypeAll" "v \<notin> trivialVolumes"
    by blast
  from FSTypeOther_exhaust [OF v(2-4)] obtain s where "v = FSTypeOther s" ..
  with v(1) show "\<exists>s. FSTypeOther s \<in> set vs" by blast
qed

lemma volumePointValue_spec: "volumePointValue scc = volumeScore_spec (Volumes scc)"
proof -
  have "volumePointValue scc =
      (if FSTypeHostPath \<in> set (Volumes scc) \<or> FSTypeAll \<in> set (Volumes scc) then 100000
       else if \<exists>s. FSTypeOther s \<in> set (Volumes scc) then 50000 else 0)"
    by (simp add: volumePointValue_def volumeLoop_flags)
  also have "\<dots> = volumeScore_spec (Volumes scc)"
    unfolding volumeScore_spec_def FSTypeOther_trivial by auto
  finally show ?thesis .
qed

subsection \<open>Further facts on the scores\<close>

lemma pointValue_nonneg: "0 \<le> pointValue c"
  using volumePointValue_bounds(1) [of c] capabilitiesPointValue_bounds(1) [of c]
    seLinuxStrategyPoints_bounds(1) [of "SELinuxType (SELinuxContext c)"]
    runAsUserStrategyPoints_bounds(1) [of "RunAsUserType (RunAsUser c)"]
  by (simp add: pointValue_sum)

lemma runningTotal_drop_count:
  "''ALL'' \<notin> set xs \<Longrightarrow>
   capabilityRunningTotal_spec (scc\<lparr>RequiredDropCapabilities := xs\<rparr>)
     = capabilityRunningTotal_spec (scc\<lparr>RequiredDropCapabilities := []\<rparr>) - 50 * int (length xs)"
  by (simp add: capabilityRunningTotal_spec_def)

lemma runningTotal_drop_all:
  "''ALL'' \<in> set xs \<Longrightarrow>
   capabilityRunningTotal_spec (scc\<lparr>RequiredDropCapabilities := xs\<rparr>)
     = capabilityRunningTotal_spec (scc\<lparr>RequiredDropCapabilities := []\<rparr>) - 3000"
  by (simp add: capabilityRunningTotal_spec_def)

lemma runningTotal_no_drop_ge:
  "5000 \<le> capabilityRunningTotal_spec (scc\<lparr>RequiredDropCapabilities := []\<rparr>)"
  by (simp add: capabilityRunningTotal_spec_def)

lemma runningTotal_allow_wildcard:
  "''ALL'' \<in> set xs \<or> ''*'' \<in> set xs \<Longrightarrow>
   capabilityRunningTotal_spec (scc\<lparr>AllowedCapabilities := xs\<rparr>)
     = capabilityRunningTotal_spec (scc\<lparr>AllowedCapabilities := [''ALL'']\<rparr>)"
  by (simp add: capabilityRunningTotal_spec_def)

subsection \<open>The comparator on its results\<close>

lemma Less_Inr:
  "index s i = Inr (Some a) \<Longrightarrow> index s j = Inr (Some b) \<Longrightarrow>
   Less s i j = Inr (pointValue a < pointValue b)"
  by (simp add: Less_def pointValue_ptr_def)

lemma Less_Inr_True:
  "Less s i j = Inr True \<Longrightarrow>
   \<exists>a b. index s i = Inr (Some a) \<and> index s j = Inr (Some b) \<and> pointValue a < pointValue b"
  by (auto simp: Less_def pointValue_ptr_def split: sum.splits option.splits)

subsection \<open>The scorer on 64-bit integers computes the same scores\<close>

lemma sint_of_int_64: "- (2 ^ 63) \<le> k \<Longrightarrow> k < 2 ^ 63 \<Longrightarrow> sint (word_of_int k :: int64) = k"
  by (simp add: sint_sbintrunc' signed_take_bit_int_eq_self)

lemma runningTotal_range:
  assumes "shortLists scc"
  shows "- (2 ^ 63) \<le> capabilityRunningTotal_spec scc" "capabilityRunningTotal_spec scc < 2 ^ 63"
proof -
  have a: "int (length (DefaultAddCapabilities scc)) < 281474976710656"
    and b: "int (length (AllowedCapabilities scc)) < 281474976710656"
    and c: "int (length (RequiredDropCapabilities scc)) < 281474976710656"
    using assms unfolding shortLists_def by simp_all
  have lo: "- 14073748835532800 \<le> capabilityRunningTotal_spec scc"
    using a b c unfolding capabilityRunningTotal_spec_def by (simp split: if_splits)
  have hi: "capabilityRunningTotal_spec scc < 90000000000000000"
    using a b c unfolding capabilityRunningTotal_spec_def by (simp split: if_splits)
  from lo show "- (2 ^ 63) \<le> capabilityRunningTotal_spec scc" by simp
  from hi show "capabilityRunningTotal_spec scc < 2 ^ 63" by simp
qed

lemma capabilitiesPointValue_int64_total:
  "capabilitiesPointValue_int64 scc =
     (let w = word_of_int (capabilityRunningTotal_spec scc) in
      if word_sless 10000 w then 10000 else if word_sless w 0 then 0 else w)"
proof -
  have "word_of_int (capabilityRunningTotal_spec scc) =
      (5000 :: int64) + 300 * of_nat (length (DefaultAddCapabilities scc))
      + (if ''ALL'' \<in> set (AllowedCapabilities scc) \<or> ''*'' \<in> set (AllowedCapabilities scc)
         then 4000 else 10 * of_nat (length (AllowedCapabilities scc)))
      - (if ''ALL'' \<in> set (RequiredDropCapabilities scc)
         then 3000 else 50 * of_nat (length (RequiredDropCapabilities scc)))"
    unfolding capabilityRunningTotal_spec_def by simp
  moreover have "\<And>p :: int64. (if hasCap CapabilityAll (AllowedCapabilities scc) then p + 4000
             else if hasCap ''ALL'' (AllowedCapabilities scc) then p + 4000
             else p + 10 * of_nat (length (AllowedCapabilities scc)))
       = p + (if ''ALL'' \<in> set (AllowedCapabilities scc) \<or> ''*'' \<in> set (AllowedCapabilities scc)
         then 4000 else 10 * of_nat (length (AllowedCapabilities scc)))"
    by (simp add: hasCap_set CapabilityAll_def)
  moreover have "\<And>p :: int64. (if hasCap ''ALL'' (RequiredDropCapabilities scc) then p - 3000
             else p - 50 * of_nat (length (RequiredDropCapabilities scc)))
       = p - (if ''ALL'' \<in> set (RequiredDropCapabilities scc)
         then 3000 else 50 * of_nat (length (RequiredDropCapabilities scc)))"
    by (simp add: hasCap_set)
  ultimately show ?thesis
    unfolding capabilitiesPointValue_int64_def Let_def by simp
qed

lemma capabilitiesPointValue_int64_eq:
  assumes "shortLists scc"
  shows "capabilitiesPointValue_int64 scc = word_of_int (capabilitiesPointValue scc)"
proof -
  have s: "sint (word_of_int (capabilityRunningTotal_spec scc) :: int64) = capabilityRunningTotal_spec scc"
    using runningTotal_range [OF assms] by (rule sint_of_int_64)
  show ?thesis
    unfolding capabilitiesPointValue_int64_total capabilitiesPointValue_total Let_def
      word_sless_alt s
    by simp
qed

lemma volumePointValue_int64_eq: "volumePointValue_int64 scc = word_of_int (volumePointValue scc)"
  by (simp add: volumePointValue_int64_def volumePointValue_def split: prod.split)

lemma pointValue_le: "pointValue c \<le> 390000"
  using volumePointValue_bounds(2) [of c] capabilitiesPointValue_bounds(2) [of c]
    seLinuxStrategyPoints_bounds(2) [of "SELinuxType (SELinuxContext c)"]
    runAsUserStrategyPoints_bounds(2) [of "RunAsUserType (RunAsUser c)"]
  by (simp add: pointValue_sum)

lemma pointValue_int64_eq:
  assumes "shortLists c"
  shows "pointValue_int64 c = word_of_int (pointValue c)"
  unfolding pointValue_int64_def Let_def volumePointValue_int64_eq
    capabilitiesPointValue_int64_eq [OF assms] pointValue_sum
  by simp

lemma int64_agrees_with_int:
  assumes "shortLists a" and "shortLists b"
  shows "sint (capabilitiesPointValue_int64 a) = capabilitiesPointValue a"
    and "sint (pointValue_int64 a) = pointValue a"
    and "word_sless (pointValue_int64 a) (pointValue_int64 b) \<longleftrightarrow> pointValue a < pointValue b"
proof -
  show "sint (capabilitiesPointValue_int64 a) = capabilitiesPointValue a"
    unfolding capabilitiesPointValue_int64_eq [OF assms(1)]
    using capabilitiesPointValue_bounds [of a] by (intro sint_of_int_64) simp_all
  have pv: "sint (pointValue_int64 c) = pointValue c" if "shortLists c" for c
    unfolding pointValue_int64_eq [OF that]
    using pointValue_nonneg [of c] pointValue_le [of c] by (intro sint_of_int_64) simp_all
  from pv [OF assms(1)] show "sint (pointValue_int64 a) = pointValue a" .
  show "word_sless (pointValue_int64 a) (pointValue_int64 b) \<longleftrightarrow> pointValue a < pointValue b"
    unfolding word_sless_alt pv [OF assms(1)] pv [OF assms(2)] ..
qed

lemma int64_agrees_example:
  "shortLists unprivilegedMaximal \<and> sint (pointValue_int64 unprivilegedMaximal) = 190000"
proof -
  have s: "shortLists unprivilegedMaximal"
    by (simp add: shortLists_def unprivilegedMaximal_def zeroSCC_def)
  have "pointValue unprivilegedMaximal = 190000"
    by (simp add: unprivilegedMaximal_def zeroSCC_def pointValue_sum volumePointValue_def cap_eval)
  with int64_agrees_with_int(2) [OF s s] s show ?thesis by simp
qed

subsection \<open>The earlier revision on a single allowed capability\<close>

lemma capabilitiesPointValue_rev1_allowed_ALL:
  "capabilitiesPointValue_rev1 (scc\<lparr>AllowedCapabilities := [''ALL'']\<rparr>)
     = max 0 (min 1000 (510 + 30 * int (length (DefaultAddCapabilities scc))
         - 50 * int (length (RequiredDropCapabilities scc))))"
  by (simp add: capabilitiesPointValue_rev1_def hasCap_set CapabilityAll_def Let_def)

lemma capabilitiesPointValue_rev1_allowed_KILL:
  "capabilitiesPointValue_rev1 (scc\<lparr>AllowedCapabilities := [''KILL'']\<rparr>)
     = max 0 (min 1000 (510 + 30 * int (length (DefaultAddCapabilities scc))
         - 50 * int (length (RequiredDropCapabilities scc))))"
  by (simp add: capabilitiesPointValue_rev1_def hasCap_set CapabilityAll_def Let_def)

lemma capabilitiesPointValue_rev1_allowed_star:
  "capabilitiesPointValue_rev1 (scc\<lparr>AllowedCapabilities := [''*'']\<rparr>)
     = max 0 (min 1000 (800 + 30 * int (length (DefaultAddCapabilities scc))
         - 50 * int (length (RequiredDropCapabilities scc))))"
  by (simp add: capabilitiesPointValue_rev1_def hasCap_set CapabilityAll_def Let_def)

section \<open>Privilege dominates\<close>

text \<open>
  C1. A constraint that allows privileged containers scores strictly higher than one
  that does not, whatever the volumes, the two strategies and the three capability
  lists of either are. This holds in the current revision and in the earlier one.
\<close>

theorem privileged_dominates:
  assumes "AllowPrivilegedContainer a" and "\<not> AllowPrivilegedContainer b"
  shows "pointValue b < pointValue a \<and> pointValue_rev1 b < pointValue_rev1 a"
proof
  have "pointValue b \<le> 190000" using assms(2) by (rule pointValue_unprivileged_le)
  moreover have "200000 \<le> pointValue a" using assms(1) by (rule pointValue_privileged_ge)
  ultimately show "pointValue b < pointValue a" by simp
next
  have "pointValue_rev1 b \<le> 91000" using assms(2) by (rule pointValue_rev1_unprivileged_le)
  moreover have "200000 \<le> pointValue_rev1 a" using assms(1) by (rule pointValue_rev1_privileged_ge)
  ultimately show "pointValue_rev1 b < pointValue_rev1 a" by simp
qed

text \<open>
  The two bounds are met: the lowest privileged score is 200000 and the highest
  unprivileged score is 190000.
\<close>

theorem privileged_dominates_witness:
  "AllowPrivilegedContainer privilegedMinimal \<and> \<not> AllowPrivilegedContainer unprivilegedMaximal
   \<and> pointValue privilegedMinimal = 200000 \<and> pointValue unprivilegedMaximal = 190000
   \<and> pointValue unprivilegedMaximal < pointValue privilegedMinimal
   \<and> pointValue_rev1 unprivilegedMaximal < pointValue_rev1 privilegedMinimal"
proof -
  have a: "AllowPrivilegedContainer privilegedMinimal"
    by (simp add: privilegedMinimal_def zeroSCC_def)
  have b: "\<not> AllowPrivilegedContainer unprivilegedMaximal"
    by (simp add: unprivilegedMaximal_def zeroSCC_def)
  have pa: "pointValue privilegedMinimal = 200000"
    by (simp add: privilegedMinimal_def zeroSCC_def eval_simps)
  have pb: "pointValue unprivilegedMaximal = 190000"
    by (simp add: unprivilegedMaximal_def zeroSCC_def eval_simps)
  show ?thesis
    using privileged_dominates [OF a b] a b pa pb by simp
qed

section \<open>SELinux strategy against capabilities\<close>

text \<open>
  C2, as stated, fails: the weight of \<open>MustRunAs\<close> is 10000, and the capability score
  reaches 10000 too. A constraint with \<open>MustRunAs\<close> that drops 100 capabilities and one
  with an unrecognised strategy that adds 17, equal otherwise, both score 10000.
\<close>

theorem selinux_weight_counterexample:
  "AllowPrivilegedContainer mustRunAsDropping = AllowPrivilegedContainer unrecognizedAdding
   \<and> Volumes mustRunAsDropping = Volumes unrecognizedAdding
   \<and> RunAsUser mustRunAsDropping = RunAsUser unrecognizedAdding
   \<and> SELinuxType (SELinuxContext mustRunAsDropping) = SELinuxStrategyMustRunAs
   \<and> SELinuxType (SELinuxContext unrecognizedAdding) = SELinuxStrategyOther ''''
   \<and> \<not> capabilitiesPointValue unrecognizedAdding < seLinuxStrategyPoints SELinuxStrategyMustRunAs
   \<and> \<not> pointValue unrecognizedAdding < pointValue mustRunAsDropping"
  unfolding pv_mustRunAsDropping pv_unrecognizedAdding cap_unrecognizedAdding
  by (simp add: mustRunAsDropping_def unrecognizedAdding_def zeroSCC_def)

text \<open>
  C2, amended. The weight of \<open>RunAsAny\<close> is strictly above every capability score and
  the weight of \<open>MustRunAs\<close> is at least every capability score. For two constraints
  that agree on privilege, volumes and user strategy, where \<open>b\<close> has an unrecognised
  SELinux strategy: if \<open>a\<close> has \<open>RunAsAny\<close> then \<open>a\<close> scores strictly higher than
  \<open>b\<close>; if \<open>a\<close> has \<open>MustRunAs\<close> then \<open>a\<close> scores at least as high as \<open>b\<close>, and
  the two scores are equal exactly when the capability score of \<open>a\<close> is 0 and that of
  \<open>b\<close> is 10000.
\<close>

theorem selinux_weight_vs_capabilities:
  "capabilitiesPointValue c < seLinuxStrategyPoints SELinuxStrategyRunAsAny
   \<and> capabilitiesPointValue c \<le> seLinuxStrategyPoints SELinuxStrategyMustRunAs
   \<and> (AllowPrivilegedContainer a = AllowPrivilegedContainer b \<and> Volumes a = Volumes b
        \<and> RunAsUser a = RunAsUser b \<and> SELinuxType (SELinuxContext b) = SELinuxStrategyOther s
      \<longrightarrow> (SELinuxType (SELinuxContext a) = SELinuxStrategyRunAsAny \<longrightarrow> pointValue b < pointValue a)
        \<and> (SELinuxType (SELinuxContext a) = SELinuxStrategyMustRunAs \<longrightarrow>
             pointValue b \<le> pointValue a
             \<and> (pointValue b = pointValue a \<longleftrightarrow>
                  capabilitiesPointValue a = 0 \<and> capabilitiesPointValue b = 10000)))"
proof (intro conjI impI)
  show "capabilitiesPointValue c < seLinuxStrategyPoints SELinuxStrategyRunAsAny"
    using capabilitiesPointValue_bounds(2) [of c] by simp
  show "capabilitiesPointValue c \<le> seLinuxStrategyPoints SELinuxStrategyMustRunAs"
    using capabilitiesPointValue_bounds(2) [of c] by simp
next
  assume same: "AllowPrivilegedContainer a = AllowPrivilegedContainer b \<and> Volumes a = Volumes b
        \<and> RunAsUser a = RunAsUser b \<and> SELinuxType (SELinuxContext b) = SELinuxStrategyOther s"
  then have vol: "volumePointValue a = volumePointValue b"
    by (intro volumePointValue_cong) simp
  have diff: "pointValue a - pointValue b =
      capabilitiesPointValue a + seLinuxStrategyPoints (SELinuxType (SELinuxContext a))
        - capabilitiesPointValue b"
    using same vol by (simp add: pointValue_sum)
  note ba = capabilitiesPointValue_bounds [of a] and bb = capabilitiesPointValue_bounds [of b]
  {
    assume "SELinuxType (SELinuxContext a) = SELinuxStrategyRunAsAny"
    then show "pointValue b < pointValue a" using diff ba bb by simp
  }
  {
    assume m: "SELinuxType (SELinuxContext a) = SELinuxStrategyMustRunAs"
    show "pointValue b \<le> pointValue a" using m diff ba bb by simp
    show "pointValue b = pointValue a \<longleftrightarrow>
            capabilitiesPointValue a = 0 \<and> capabilitiesPointValue b = 10000"
      using m diff ba bb by auto
  }
qed

theorem selinux_weight_vs_capabilities_witness:
  "pointValue unrecognizedAdding < pointValue runAsAnyDropping
   \<and> pointValue unrecognizedAdding \<le> pointValue mustRunAsDropping
   \<and> pointValue unrecognizedAdding = pointValue mustRunAsDropping
   \<and> capabilitiesPointValue mustRunAsDropping = 0
   \<and> capabilitiesPointValue unrecognizedAdding = 10000"
proof -
  have r: "AllowPrivilegedContainer runAsAnyDropping = AllowPrivilegedContainer unrecognizedAdding
      \<and> Volumes runAsAnyDropping = Volumes unrecognizedAdding
      \<and> RunAsUser runAsAnyDropping = RunAsUser unrecognizedAdding
      \<and> SELinuxType (SELinuxContext unrecognizedAdding) = SELinuxStrategyOther ''''"
    by (simp add: runAsAnyDropping_def unrecognizedAdding_def zeroSCC_def)
  have m: "AllowPrivilegedContainer mustRunAsDropping = AllowPrivilegedContainer unrecognizedAdding
      \<and> Volumes mustRunAsDropping = Volumes unrecognizedAdding
      \<and> RunAsUser mustRunAsDropping = RunAsUser unrecognizedAdding
      \<and> SELinuxType (SELinuxContext unrecognizedAdding) = SELinuxStrategyOther ''''"
    by (simp add: mustRunAsDropping_def unrecognizedAdding_def zeroSCC_def)
  have rt: "SELinuxType (SELinuxContext runAsAnyDropping) = SELinuxStrategyRunAsAny"
    by (simp add: runAsAnyDropping_def zeroSCC_def)
  have mt: "SELinuxType (SELinuxContext mustRunAsDropping) = SELinuxStrategyMustRunAs"
    by (simp add: mustRunAsDropping_def zeroSCC_def)
  have c0: "capabilitiesPointValue mustRunAsDropping = 0"
    by (simp add: mustRunAsDropping_def zeroSCC_def capabilitiesPointValue_total
        capabilityRunningTotal_spec_def)
  have c1: "capabilitiesPointValue unrecognizedAdding = 10000"
    by (simp add: unrecognizedAdding_def zeroSCC_def capabilitiesPointValue_total
        capabilityRunningTotal_spec_def)
  from selinux_weight_vs_capabilities [of zeroSCC runAsAnyDropping unrecognizedAdding "''''"] r rt
  have 1: "pointValue unrecognizedAdding < pointValue runAsAnyDropping" by blast
  from selinux_weight_vs_capabilities [of zeroSCC mustRunAsDropping unrecognizedAdding "''''"] m mt
  have 2: "pointValue unrecognizedAdding \<le> pointValue mustRunAsDropping
           \<and> (pointValue unrecognizedAdding = pointValue mustRunAsDropping \<longleftrightarrow>
                capabilitiesPointValue mustRunAsDropping = 0
                \<and> capabilitiesPointValue unrecognizedAdding = 10000)" by blast
  from 1 2 c0 c1 show ?thesis by simp
qed

section \<open>Monotonicity in the capability lists\<close>

text \<open>
  C3, as stated, fails where the appended entry is a wildcard: with 401 allowed
  capabilities the score is 9010 and appending \<open>"ALL"\<close> lowers it to 9000; with 61
  dropped capabilities the score is 1950 and appending \<open>"ALL"\<close> raises it to 2000.
\<close>

theorem capability_monotonicity_counterexample:
  "capabilitiesPointValue
      (manyAllowed\<lparr>AllowedCapabilities := AllowedCapabilities manyAllowed @ [''ALL'']\<rparr>)
     < capabilitiesPointValue manyAllowed
   \<and> capabilitiesPointValue manyDropped
     < capabilitiesPointValue
         (manyDropped\<lparr>RequiredDropCapabilities := RequiredDropCapabilities manyDropped @ [''ALL'']\<rparr>)"
  by (simp add: manyAllowed_def manyDropped_def zeroSCC_def capabilitiesPointValue_total
      capabilityRunningTotal_spec_def)

text \<open>
  C3, amended. Appending an entry to \<open>DefaultAddCapabilities\<close> never decreases the
  capability score. Appending an entry to \<open>AllowedCapabilities\<close> never decreases it
  when the entry is no wildcard, or the list already holds a wildcard, or the list has
  at most 400 entries. Appending an entry to \<open>RequiredDropCapabilities\<close> never
  increases it when the entry is not \<open>"ALL"\<close>, or the list already holds \<open>"ALL"\<close>, or
  the list has at most 60 entries.
\<close>

theorem capability_monotonicity:
  "capabilitiesPointValue scc
     \<le> capabilitiesPointValue
         (scc\<lparr>DefaultAddCapabilities := DefaultAddCapabilities scc @ [c]\<rparr>)
   \<and> ((c \<noteq> ''ALL'' \<and> c \<noteq> ''*'') \<or> ''ALL'' \<in> set (AllowedCapabilities scc)
        \<or> ''*'' \<in> set (AllowedCapabilities scc) \<or> length (AllowedCapabilities scc) \<le> 400
      \<longrightarrow> capabilitiesPointValue scc
            \<le> capabilitiesPointValue
                (scc\<lparr>AllowedCapabilities := AllowedCapabilities scc @ [c]\<rparr>))
   \<and> (c \<noteq> ''ALL'' \<or> ''ALL'' \<in> set (RequiredDropCapabilities scc)
        \<or> length (RequiredDropCapabilities scc) \<le> 60
      \<longrightarrow> capabilitiesPointValue
             (scc\<lparr>RequiredDropCapabilities := RequiredDropCapabilities scc @ [c]\<rparr>)
            \<le> capabilitiesPointValue scc)"
proof (intro conjI impI)
  show "capabilitiesPointValue scc
     \<le> capabilitiesPointValue (scc\<lparr>DefaultAddCapabilities := DefaultAddCapabilities scc @ [c]\<rparr>)"
    unfolding capabilitiesPointValue_clamp runningTotal_add by (rule clamp_mono) simp
next
  assume "(c \<noteq> ''ALL'' \<and> c \<noteq> ''*'') \<or> ''ALL'' \<in> set (AllowedCapabilities scc)
        \<or> ''*'' \<in> set (AllowedCapabilities scc) \<or> length (AllowedCapabilities scc) \<le> 400"
  then show "capabilitiesPointValue scc
            \<le> capabilitiesPointValue (scc\<lparr>AllowedCapabilities := AllowedCapabilities scc @ [c]\<rparr>)"
    unfolding capabilitiesPointValue_clamp by (intro clamp_mono runningTotal_allow)
next
  assume "c \<noteq> ''ALL'' \<or> ''ALL'' \<in> set (RequiredDropCapabilities scc)
        \<or> length (RequiredDropCapabilities scc) \<le> 60"
  then show "capabilitiesPointValue
             (scc\<lparr>RequiredDropCapabilities := RequiredDropCapabilities scc @ [c]\<rparr>)
            \<le> capabilitiesPointValue scc"
    unfolding capabilitiesPointValue_clamp by (intro clamp_mono runningTotal_drop)
qed

theorem capability_monotonicity_witness:
  "capabilitiesPointValue zeroSCC = 5000
   \<and> capabilitiesPointValue
        (zeroSCC\<lparr>DefaultAddCapabilities := DefaultAddCapabilities zeroSCC @ [''KILL'']\<rparr>) = 5300
   \<and> capabilitiesPointValue
        (zeroSCC\<lparr>AllowedCapabilities := AllowedCapabilities zeroSCC @ [''KILL'']\<rparr>) = 5010
   \<and> capabilitiesPointValue
        (zeroSCC\<lparr>AllowedCapabilities := AllowedCapabilities zeroSCC @ [''ALL'']\<rparr>) = 9000
   \<and> capabilitiesPointValue
        (zeroSCC\<lparr>RequiredDropCapabilities := RequiredDropCapabilities zeroSCC @ [''KILL'']\<rparr>) = 4950
   \<and> capabilitiesPointValue
        (zeroSCC\<lparr>RequiredDropCapabilities := RequiredDropCapabilities zeroSCC @ [''ALL'']\<rparr>) = 2000
   \<and> capabilitiesPointValue zeroSCC
       \<le> capabilitiesPointValue
            (zeroSCC\<lparr>AllowedCapabilities := AllowedCapabilities zeroSCC @ [''ALL'']\<rparr>)
   \<and> capabilitiesPointValue
        (zeroSCC\<lparr>RequiredDropCapabilities := RequiredDropCapabilities zeroSCC @ [''ALL'']\<rparr>)
       \<le> capabilitiesPointValue zeroSCC"
proof -
  have len: "length (AllowedCapabilities zeroSCC) \<le> 400" "length (RequiredDropCapabilities zeroSCC) \<le> 60"
    by (simp_all add: zeroSCC_def)
  have ord: "''KILL'' \<noteq> ''ALL'' \<and> ''KILL'' \<noteq> ''*''" by simp
  note k = capability_monotonicity [of zeroSCC "''KILL''"]
  note w = capability_monotonicity [of zeroSCC "''ALL''"]
  have 1: "capabilitiesPointValue zeroSCC
       \<le> capabilitiesPointValue
            (zeroSCC\<lparr>AllowedCapabilities := AllowedCapabilities zeroSCC @ [''ALL'']\<rparr>)"
    using w len by blast
  have 2: "capabilitiesPointValue
        (zeroSCC\<lparr>RequiredDropCapabilities := RequiredDropCapabilities zeroSCC @ [''ALL'']\<rparr>)
       \<le> capabilitiesPointValue zeroSCC"
    using w len by blast
  have 3: "capabilitiesPointValue zeroSCC
       \<le> capabilitiesPointValue
            (zeroSCC\<lparr>AllowedCapabilities := AllowedCapabilities zeroSCC @ [''KILL'']\<rparr>)"
    using k ord by blast
  have vals: "capabilitiesPointValue zeroSCC = 5000"
    "capabilitiesPointValue
        (zeroSCC\<lparr>DefaultAddCapabilities := DefaultAddCapabilities zeroSCC @ [''KILL'']\<rparr>) = 5300"
    "capabilitiesPointValue
        (zeroSCC\<lparr>AllowedCapabilities := AllowedCapabilities zeroSCC @ [''KILL'']\<rparr>) = 5010"
    "capabilitiesPointValue
        (zeroSCC\<lparr>AllowedCapabilities := AllowedCapabilities zeroSCC @ [''ALL'']\<rparr>) = 9000"
    "capabilitiesPointValue
        (zeroSCC\<lparr>RequiredDropCapabilities := RequiredDropCapabilities zeroSCC @ [''KILL'']\<rparr>) = 4950"
    "capabilitiesPointValue
        (zeroSCC\<lparr>RequiredDropCapabilities := RequiredDropCapabilities zeroSCC @ [''ALL'']\<rparr>) = 2000"
    by (simp_all add: zeroSCC_def cap_eval)
  from 1 2 3 vals show ?thesis by simp
qed

section \<open>The two wildcard tokens in the allowed list\<close>

text \<open>
  C4, as stated, fails on the earlier revision, which looks for \<open>kapi.CapabilityAll\<close>
  only and knows no token \<open>"ALL"\<close>, neither in the allowed list nor in the drop list:
  on the zero value, \<open>AllowedCapabilities = ["ALL"]\<close> scores 510 and
  \<open>AllowedCapabilities = ["*"]\<close> scores 800, and the total scores differ as well.
\<close>

theorem allowed_wildcard_tokens_counterexample:
  "capabilitiesPointValue_rev1 (zeroSCC\<lparr>AllowedCapabilities := [''ALL'']\<rparr>) = 510
   \<and> capabilitiesPointValue_rev1 (zeroSCC\<lparr>AllowedCapabilities := [''*'']\<rparr>) = 800
   \<and> capabilitiesPointValue_rev1 (zeroSCC\<lparr>AllowedCapabilities := [''ALL'']\<rparr>)
       \<noteq> capabilitiesPointValue_rev1 (zeroSCC\<lparr>AllowedCapabilities := [''*'']\<rparr>)
   \<and> pointValue_rev1 (zeroSCC\<lparr>AllowedCapabilities := [''ALL'']\<rparr>)
       \<noteq> pointValue_rev1 (zeroSCC\<lparr>AllowedCapabilities := [''*'']\<rparr>)"
  by (simp add: pointValue_rev1_sum volumePointValue_rev1_def capabilitiesPointValue_rev1_def
      zeroSCC_def hasCap_set CapabilityAll_def)

text \<open>
  C4, amended. In the current revision, two constraints that differ only in that one
  has \<open>AllowedCapabilities = ["ALL"]\<close> and the other \<open>AllowedCapabilities = ["*"]\<close>
  have the same capability score and the same total score. In the earlier revision,
  where only \<open>"*"\<close> is the wildcard, \<open>["ALL"]\<close> scores as one ordinary capability
  does; its capability score is at most the one of \<open>["*"]\<close>, and the two are equal
  only when both are clamped, the first at the ceiling 1000 or the second at 0.
\<close>

theorem allowed_wildcard_tokens:
  "capabilitiesPointValue (scc\<lparr>AllowedCapabilities := [''ALL'']\<rparr>)
     = capabilitiesPointValue (scc\<lparr>AllowedCapabilities := [''*'']\<rparr>)
   \<and> pointValue (scc\<lparr>AllowedCapabilities := [''ALL'']\<rparr>)
     = pointValue (scc\<lparr>AllowedCapabilities := [''*'']\<rparr>)
   \<and> capabilitiesPointValue_rev1 (scc\<lparr>AllowedCapabilities := [''ALL'']\<rparr>)
     = capabilitiesPointValue_rev1 (scc\<lparr>AllowedCapabilities := [''KILL'']\<rparr>)
   \<and> capabilitiesPointValue_rev1 (scc\<lparr>AllowedCapabilities := [''ALL'']\<rparr>)
     \<le> capabilitiesPointValue_rev1 (scc\<lparr>AllowedCapabilities := [''*'']\<rparr>)
   \<and> (capabilitiesPointValue_rev1 (scc\<lparr>AllowedCapabilities := [''ALL'']\<rparr>)
        = capabilitiesPointValue_rev1 (scc\<lparr>AllowedCapabilities := [''*'']\<rparr>)
      \<longleftrightarrow> capabilitiesPointValue_rev1 (scc\<lparr>AllowedCapabilities := [''ALL'']\<rparr>) = 1000
          \<or> capabilitiesPointValue_rev1 (scc\<lparr>AllowedCapabilities := [''*'']\<rparr>) = 0)"
proof -
  define t where "t = 510 + 30 * int (length (DefaultAddCapabilities scc))
         - 50 * int (length (RequiredDropCapabilities scc))"
  have all: "capabilitiesPointValue_rev1 (scc\<lparr>AllowedCapabilities := [''ALL'']\<rparr>)
      = max 0 (min 1000 t)"
    unfolding t_def by (rule capabilitiesPointValue_rev1_allowed_ALL)
  have kill: "capabilitiesPointValue_rev1 (scc\<lparr>AllowedCapabilities := [''KILL'']\<rparr>)
      = max 0 (min 1000 t)"
    unfolding t_def by (rule capabilitiesPointValue_rev1_allowed_KILL)
  have star: "capabilitiesPointValue_rev1 (scc\<lparr>AllowedCapabilities := [''*'']\<rparr>)
      = max 0 (min 1000 (t + 290))"
    unfolding t_def capabilitiesPointValue_rev1_allowed_star by simp
  have cur: "capabilitiesPointValue (scc\<lparr>AllowedCapabilities := [''ALL'']\<rparr>)
     = capabilitiesPointValue (scc\<lparr>AllowedCapabilities := [''*'']\<rparr>)"
    "pointValue (scc\<lparr>AllowedCapabilities := [''ALL'']\<rparr>)
     = pointValue (scc\<lparr>AllowedCapabilities := [''*'']\<rparr>)"
    by (simp_all add: pointValue_sum volumePointValue_def capabilitiesPointValue_total
      capabilityRunningTotal_spec_def)
  have le: "max 0 (min 1000 t) \<le> max 0 (min 1000 (t + 290))" by simp
  have eq: "max 0 (min 1000 t) = max 0 (min 1000 (t + 290))
      \<longleftrightarrow> max 0 (min 1000 t) = 1000 \<or> max 0 (min 1000 (t + 290)) = 0"
    by (simp add: max_def min_def)
  show ?thesis unfolding all kill star using cur le eq by simp
qed

section \<open>The volume score\<close>

text \<open>
  C5. The volume score is one of three values: 100000 when the volumes hold
  \<open>HostPath\<close> or the wildcard, whatever else they hold; else 50000 when they hold a kind
  outside the trivial set; else 0. No volumes score 0, and \<open>HostPath\<close> among any other
  volumes scores as \<open>HostPath\<close> alone.
\<close>

theorem volume_score_three_values:
  "volumePointValue scc = volumeScore_spec (Volumes scc)
   \<and> volumePointValue scc \<in> {0, 50000, 100000}
   \<and> volumePointValue (scc\<lparr>Volumes := []\<rparr>) = 0
   \<and> volumePointValue (scc\<lparr>Volumes := us @ FSTypeHostPath # vs\<rparr>)
       = volumePointValue (scc\<lparr>Volumes := [FSTypeHostPath]\<rparr>)
   \<and> volumePointValue (scc\<lparr>Volumes := us @ FSTypeAll # vs\<rparr>) = 100000
   \<and> volumePointValue (scc\<lparr>Volumes := [FSTypeHostPath]\<rparr>) = 100000"
  using volumePointValue_range [of scc]
  by (simp add: volumePointValue_spec volumeScore_spec_def)

section \<open>Bounds of the scores\<close>

text \<open>
  C6. The capability score lies between 0 and the ceiling 10000: it is the running
  total, saturated at 0 below and at 10000 above. The total score of a constraint is
  not negative, and the scorer returns it without a panic on any constraint that is
  not nil.
\<close>

theorem scores_bounded:
  "0 \<le> capabilitiesPointValue scc \<and> capabilitiesPointValue scc \<le> 10000
   \<and> capabilitiesPointValue scc = max 0 (min 10000 (capabilityRunningTotal_spec scc))
   \<and> 0 \<le> pointValue scc
   \<and> pointValue_ptr (Some scc) = Inr (pointValue scc)"
  using capabilitiesPointValue_bounds [of scc] pointValue_nonneg [of scc]
  by (simp add: capabilitiesPointValue_clamp [symmetric] pointValue_ptr_def)

section \<open>Unrecognised strategies and empty collections\<close>

text \<open>
  C7. A SELinux strategy or a user strategy that is none of the recognised values adds
  exactly 0 to the score: the score is then the sum of the other terms, and the scorer
  returns it without a panic. No volumes score 0, and three empty capability lists
  leave the capability score at its base 5000; the zero value of the constraint scores
  5000.
\<close>

theorem unrecognized_and_empty_score_zero:
  "seLinuxStrategyPoints (SELinuxStrategyOther s) = 0
   \<and> runAsUserStrategyPoints (RunAsUserStrategyOther u) = 0
   \<and> pointValue (scc\<lparr>SELinuxContext := \<lparr>SELinuxType = SELinuxStrategyOther s\<rparr>\<rparr>)
       = (if AllowPrivilegedContainer scc then 200000 else 0) + volumePointValue scc
         + capabilitiesPointValue scc + runAsUserStrategyPoints (RunAsUserType (RunAsUser scc))
   \<and> pointValue (scc\<lparr>RunAsUser := \<lparr>RunAsUserType = RunAsUserStrategyOther u\<rparr>\<rparr>)
       = (if AllowPrivilegedContainer scc then 200000 else 0) + volumePointValue scc
         + capabilitiesPointValue scc + seLinuxStrategyPoints (SELinuxType (SELinuxContext scc))
   \<and> pointValue_ptr (Some scc) = Inr (pointValue scc)
   \<and> volumePointValue (scc\<lparr>Volumes := []\<rparr>) = 0
   \<and> capabilitiesPointValue
        (scc\<lparr>DefaultAddCapabilities := [], AllowedCapabilities := [],
             RequiredDropCapabilities := []\<rparr>) = 5000
   \<and> pointValue zeroSCC = 5000"
  by (simp add: pointValue_sum pointValue_ptr_def volumePointValue_def capabilitiesPointValue_total
      capabilityRunningTotal_spec_def zeroSCC_def)

section \<open>The drop term\<close>

text \<open>
  C8. In the drop term only the token \<open>"ALL"\<close> brings the fixed subtraction. Drop lists
  without \<open>"ALL"\<close> of the same length score the same, so \<open>"*"\<close> counts as one
  ordinary capability, and every drop list with \<open>"ALL"\<close> scores as \<open>["ALL"]\<close> does.
  The score with \<open>["ALL"]\<close> is at most the score with \<open>["*"]\<close>, and the two are equal
  only when both sit at the ceiling 10000; on the zero value they are 2000 and 4950.
\<close>

theorem drop_all_only_literal:
  "(''ALL'' \<notin> set xs \<and> ''ALL'' \<notin> set ys \<and> length xs = length ys \<longrightarrow>
      capabilitiesPointValue (scc\<lparr>RequiredDropCapabilities := xs\<rparr>)
        = capabilitiesPointValue (scc\<lparr>RequiredDropCapabilities := ys\<rparr>))
   \<and> (''ALL'' \<in> set xs \<longrightarrow>
      capabilitiesPointValue (scc\<lparr>RequiredDropCapabilities := xs\<rparr>)
        = capabilitiesPointValue (scc\<lparr>RequiredDropCapabilities := [''ALL'']\<rparr>))
   \<and> capabilitiesPointValue (scc\<lparr>RequiredDropCapabilities := [''*'']\<rparr>)
        = capabilitiesPointValue (scc\<lparr>RequiredDropCapabilities := [''KILL'']\<rparr>)
   \<and> capabilitiesPointValue (scc\<lparr>RequiredDropCapabilities := [''ALL'']\<rparr>)
        \<le> capabilitiesPointValue (scc\<lparr>RequiredDropCapabilities := [''*'']\<rparr>)
   \<and> (capabilitiesPointValue (scc\<lparr>RequiredDropCapabilities := [''ALL'']\<rparr>)
        = capabilitiesPointValue (scc\<lparr>RequiredDropCapabilities := [''*'']\<rparr>)
      \<longleftrightarrow> capabilitiesPointValue (scc\<lparr>RequiredDropCapabilities := [''ALL'']\<rparr>) = 10000)
   \<and> capabilitiesPointValue (zeroSCC\<lparr>RequiredDropCapabilities := [''ALL'']\<rparr>) = 2000
   \<and> capabilitiesPointValue (zeroSCC\<lparr>RequiredDropCapabilities := [''*'']\<rparr>) = 4950"
proof -
  define t where "t = capabilityRunningTotal_spec (scc\<lparr>RequiredDropCapabilities := []\<rparr>)"
  have t: "5000 \<le> t" unfolding t_def by (rule runningTotal_no_drop_ge)
  have star: "capabilitiesPointValue (scc\<lparr>RequiredDropCapabilities := [''*'']\<rparr>)
      = max 0 (min 10000 (t - 50))"
    unfolding capabilitiesPointValue_clamp t_def by (subst runningTotal_drop_count) simp_all
  have kill: "capabilitiesPointValue (scc\<lparr>RequiredDropCapabilities := [''KILL'']\<rparr>)
      = max 0 (min 10000 (t - 50))"
    unfolding capabilitiesPointValue_clamp t_def by (subst runningTotal_drop_count) simp_all
  have all: "capabilitiesPointValue (scc\<lparr>RequiredDropCapabilities := [''ALL'']\<rparr>)
      = max 0 (min 10000 (t - 3000))"
    unfolding capabilitiesPointValue_clamp t_def by (subst runningTotal_drop_all) simp_all
  have 1: "''ALL'' \<notin> set xs \<and> ''ALL'' \<notin> set ys \<and> length xs = length ys \<longrightarrow>
      capabilitiesPointValue (scc\<lparr>RequiredDropCapabilities := xs\<rparr>)
        = capabilitiesPointValue (scc\<lparr>RequiredDropCapabilities := ys\<rparr>)"
  proof
    assume h: "''ALL'' \<notin> set xs \<and> ''ALL'' \<notin> set ys \<and> length xs = length ys"
    have "capabilityRunningTotal_spec (scc\<lparr>RequiredDropCapabilities := xs\<rparr>) = t - 50 * int (length xs)"
      unfolding t_def using h by (intro runningTotal_drop_count) simp
    moreover have "capabilityRunningTotal_spec (scc\<lparr>RequiredDropCapabilities := ys\<rparr>) = t - 50 * int (length ys)"
      unfolding t_def using h by (intro runningTotal_drop_count) simp
    ultimately show "capabilitiesPointValue (scc\<lparr>RequiredDropCapabilities := xs\<rparr>)
        = capabilitiesPointValue (scc\<lparr>RequiredDropCapabilities := ys\<rparr>)"
      unfolding capabilitiesPointValue_clamp using h by simp
  qed
  have 2: "''ALL'' \<in> set xs \<longrightarrow>
      capabilitiesPointValue (scc\<lparr>RequiredDropCapabilities := xs\<rparr>)
        = capabilitiesPointValue (scc\<lparr>RequiredDropCapabilities := [''ALL'']\<rparr>)"
    unfolding capabilitiesPointValue_clamp by (simp add: runningTotal_drop_all)
  have 3: "capabilitiesPointValue (scc\<lparr>RequiredDropCapabilities := [''ALL'']\<rparr>)
        \<le> capabilitiesPointValue (scc\<lparr>RequiredDropCapabilities := [''*'']\<rparr>)"
    unfolding star all by simp
  have 4: "capabilitiesPointValue (scc\<lparr>RequiredDropCapabilities := [''ALL'']\<rparr>)
        = capabilitiesPointValue (scc\<lparr>RequiredDropCapabilities := [''*'']\<rparr>)
      \<longleftrightarrow> capabilitiesPointValue (scc\<lparr>RequiredDropCapabilities := [''ALL'']\<rparr>) = 10000"
    unfolding star all using t by (simp add: max_def min_def)
  have 5: "capabilitiesPointValue (zeroSCC\<lparr>RequiredDropCapabilities := [''ALL'']\<rparr>) = 2000"
    "capabilitiesPointValue (zeroSCC\<lparr>RequiredDropCapabilities := [''*'']\<rparr>) = 4950"
    by (simp_all add: zeroSCC_def cap_eval)
  from 1 2 3 4 5 star kill show ?thesis by simp
qed

theorem drop_all_only_literal_witness:
  "capabilitiesPointValue (zeroSCC\<lparr>RequiredDropCapabilities := [''*'', ''KILL'']\<rparr>)
     = capabilitiesPointValue (zeroSCC\<lparr>RequiredDropCapabilities := [''KILL'', ''MKNOD'']\<rparr>)
   \<and> capabilitiesPointValue (zeroSCC\<lparr>RequiredDropCapabilities := [''KILL'', ''MKNOD'']\<rparr>) = 4900
   \<and> capabilitiesPointValue (zeroSCC\<lparr>RequiredDropCapabilities := [''KILL'', ''ALL'']\<rparr>)
     = capabilitiesPointValue (zeroSCC\<lparr>RequiredDropCapabilities := [''ALL'']\<rparr>)
   \<and> capabilitiesPointValue (zeroSCC\<lparr>RequiredDropCapabilities := [''ALL'']\<rparr>) = 2000"
proof -
  have h1: "''ALL'' \<notin> set [''*'', ''KILL''] \<and> ''ALL'' \<notin> set [''KILL'', ''MKNOD'']
      \<and> length [''*'', ''KILL''] = length [''KILL'', ''MKNOD'']"
    by simp
  have h2: "''ALL'' \<in> set [''KILL'', ''ALL'']" by simp
  have v: "capabilitiesPointValue (zeroSCC\<lparr>RequiredDropCapabilities := [''KILL'', ''MKNOD'']\<rparr>) = 4900"
    by (simp add: zeroSCC_def cap_eval)
  have 1: "capabilitiesPointValue (zeroSCC\<lparr>RequiredDropCapabilities := [''*'', ''KILL'']\<rparr>)
     = capabilitiesPointValue (zeroSCC\<lparr>RequiredDropCapabilities := [''KILL'', ''MKNOD'']\<rparr>)"
    using drop_all_only_literal [of "[''*'', ''KILL'']" "[''KILL'', ''MKNOD'']" zeroSCC] h1 by blast
  have 2: "capabilitiesPointValue (zeroSCC\<lparr>RequiredDropCapabilities := [''KILL'', ''ALL'']\<rparr>)
     = capabilitiesPointValue (zeroSCC\<lparr>RequiredDropCapabilities := [''ALL'']\<rparr>)"
    using drop_all_only_literal [of "[''KILL'', ''ALL'']" "[]" zeroSCC] h2 by blast
  have 3: "capabilitiesPointValue (zeroSCC\<lparr>RequiredDropCapabilities := [''ALL'']\<rparr>) = 2000"
    using drop_all_only_literal [of "[]" "[]" zeroSCC] by blast
  from 1 2 3 v show ?thesis by simp
qed

section \<open>The allow term under a wildcard\<close>

text \<open>
  C9. When \<open>AllowedCapabilities\<close> holds a wildcard, the capability score does not
  depend on what else the list holds: any two allowed lists that both hold a wildcard
  give the same capability score.
\<close>

theorem allowed_wildcard_fixed_weight:
  "(''ALL'' \<in> set xs \<or> ''*'' \<in> set xs) \<and> (''ALL'' \<in> set ys \<or> ''*'' \<in> set ys) \<longrightarrow>
     capabilitiesPointValue (scc\<lparr>AllowedCapabilities := xs\<rparr>)
       = capabilitiesPointValue (scc\<lparr>AllowedCapabilities := ys\<rparr>)"
proof
  assume h: "(''ALL'' \<in> set xs \<or> ''*'' \<in> set xs) \<and> (''ALL'' \<in> set ys \<or> ''*'' \<in> set ys)"
  then have "capabilityRunningTotal_spec (scc\<lparr>AllowedCapabilities := xs\<rparr>)
      = capabilityRunningTotal_spec (scc\<lparr>AllowedCapabilities := ys\<rparr>)"
    using runningTotal_allow_wildcard [of xs scc] runningTotal_allow_wildcard [of ys scc] by simp
  then show "capabilitiesPointValue (scc\<lparr>AllowedCapabilities := xs\<rparr>)
       = capabilitiesPointValue (scc\<lparr>AllowedCapabilities := ys\<rparr>)"
    unfolding capabilitiesPointValue_clamp by simp
qed

theorem allowed_wildcard_fixed_weight_witness:
  "capabilitiesPointValue (zeroSCC\<lparr>AllowedCapabilities := [''KILL'', ''*'', ''MKNOD'']\<rparr>)
     = capabilitiesPointValue (zeroSCC\<lparr>AllowedCapabilities := [''*'']\<rparr>)
   \<and> capabilitiesPointValue (zeroSCC\<lparr>AllowedCapabilities := [''*'']\<rparr>) = 9000
   \<and> capabilitiesPointValue (zeroSCC\<lparr>AllowedCapabilities := [''KILL'', ''MKNOD'']\<rparr>) = 5020"
proof -
  have h: "(''ALL'' \<in> set [''KILL'', ''*'', ''MKNOD''] \<or> ''*'' \<in> set [''KILL'', ''*'', ''MKNOD''])
      \<and> (''ALL'' \<in> set [''*''] \<or> ''*'' \<in> set [''*''])"
    by simp
  have v: "capabilitiesPointValue (zeroSCC\<lparr>AllowedCapabilities := [''*'']\<rparr>) = 9000"
    "capabilitiesPointValue (zeroSCC\<lparr>AllowedCapabilities := [''KILL'', ''MKNOD'']\<rparr>) = 5020"
    by (simp_all add: zeroSCC_def cap_eval)
  from allowed_wildcard_fixed_weight [of "[''KILL'', ''*'', ''MKNOD'']" "[''*'']" zeroSCC] h
  have "capabilitiesPointValue (zeroSCC\<lparr>AllowedCapabilities := [''KILL'', ''*'', ''MKNOD'']\<rparr>)
     = capabilitiesPointValue (zeroSCC\<lparr>AllowedCapabilities := [''*'']\<rparr>)"
    by (rule mp)
  with v show ?thesis by simp
qed

section \<open>The comparator\<close>

text \<open>
  C10. \<open>Less\<close> is the strict order of the scores: on two constraints that are present
  it returns whether the first scores strictly less; it never returns true for an
  element against itself, never returns true in both directions, and returns false
  in both directions for two constraints with equal scores.
\<close>

theorem Less_strict_order:
  "Less s i i \<noteq> Inr True
   \<and> \<not> (Less s i j = Inr True \<and> Less s j i = Inr True)
   \<and> (index s i = Inr (Some a) \<longrightarrow> Less s i i = Inr False)
   \<and> (index s i = Inr (Some a) \<and> index s j = Inr (Some b) \<longrightarrow>
        Less s i j = Inr (pointValue a < pointValue b))
   \<and> (index s i = Inr (Some a) \<and> index s j = Inr (Some b) \<and> pointValue a = pointValue b \<longrightarrow>
        Less s i j = Inr False \<and> Less s j i = Inr False)"
proof (intro conjI impI notI)
  assume "Less s i i = Inr True"
  from Less_Inr_True [OF this] show False by auto
next
  assume "Less s i j = Inr True \<and> Less s j i = Inr True"
  then have ij: "Less s i j = Inr True" and ji: "Less s j i = Inr True" by simp_all
  from Less_Inr_True [OF ij] Less_Inr_True [OF ji] show False by auto
next
  assume "index s i = Inr (Some a)"
  then show "Less s i i = Inr False" by (simp add: Less_Inr)
next
  assume "index s i = Inr (Some a) \<and> index s j = Inr (Some b)"
  then show "Less s i j = Inr (pointValue a < pointValue b)" by (simp add: Less_Inr)
next
  assume h: "index s i = Inr (Some a) \<and> index s j = Inr (Some b) \<and> pointValue a = pointValue b"
  then show "Less s i j = Inr False" by (simp add: Less_Inr)
  from h show "Less s j i = Inr False" by (simp add: Less_Inr)
qed

theorem Less_strict_order_witness:
  "Less exampleSlice 0 0 = Inr False
   \<and> Less exampleSlice 0 1 = Inr False \<and> Less exampleSlice 1 0 = Inr False
   \<and> Less exampleSlice 0 2 = Inr True \<and> Less exampleSlice 2 0 = Inr False"
proof -
  have i0: "index exampleSlice 0 = Inr (Some mustRunAsDropping)"
    and i1: "index exampleSlice 1 = Inr (Some unrecognizedAdding)"
    and i2: "index exampleSlice 2 = Inr (Some privilegedMinimal)"
    by (simp_all add: index_def exampleSlice_def)
  have p2: "pointValue privilegedMinimal = 200000"
    by (simp add: privilegedMinimal_def zeroSCC_def pointValue_sum volumePointValue_def cap_eval)
  note p0 = pv_mustRunAsDropping and p1 = pv_unrecognizedAdding
  have eq: "pointValue mustRunAsDropping = pointValue unrecognizedAdding" by (simp add: p0 p1)
  note t01 = Less_strict_order [of exampleSlice 0 1 mustRunAsDropping unrecognizedAdding]
  note t02 = Less_strict_order [of exampleSlice 0 2 mustRunAsDropping privilegedMinimal]
  note t20 = Less_strict_order [of exampleSlice 2 0 privilegedMinimal mustRunAsDropping]
  have a: "Less exampleSlice 0 0 = Inr False" using t01 i0 by blast
  have b: "Less exampleSlice 0 1 = Inr False \<and> Less exampleSlice 1 0 = Inr False"
    using t01 i0 i1 eq by blast
  have c: "Less exampleSlice 0 2 = Inr (pointValue mustRunAsDropping < pointValue privilegedMinimal)"
    using t02 i0 i2 by blast
  have d: "Less exampleSlice 2 0 = Inr (pointValue privilegedMinimal < pointValue mustRunAsDropping)"
    using t20 i0 i2 by blast
  from a b c d show ?thesis by (simp add: p0 p2)
qed

text \<open>Outside the slice, or on a nil element, the comparison panics.\<close>

lemma Less_panics:
  "Less exampleSlice 0 3 = Inl IndexOutOfRange
   \<and> Less exampleSlice (-1) 0 = Inl IndexOutOfRange
   \<and> Less [None] 0 0 = Inl NilPointerDereference"
  by (simp add: Less_def index_def exampleSlice_def pointValue_ptr_def)

end
